theory Spec2Isabelle
  imports Main "HOL-Library.AList"
begin

section \<open>Python strings\<close>

text \<open>
  A Python \<open>str\<close> is modelled as a \<open>string\<close>: one \<open>char\<close> per code point, for texts
  whose code points are below 256. \<open>length\<close> is then Python's \<open>len\<close>. The functions below
  are the \<open>str\<close> methods the program calls, on that range.
\<close>

definition py_isspace :: "char \<Rightarrow> bool" where
  \<comment> \<open>\<open>str.isspace\<close> on one code point below 256\<close>
  "py_isspace c = (c \<in> set [CHR 0x09, CHR 0x0A, CHR 0x0B, CHR 0x0C, CHR 0x0D,
      CHR 0x1C, CHR 0x1D, CHR 0x1E, CHR 0x1F, CHR 0x20, CHR 0x85, CHR 0xA0])"

definition py_lstrip :: "string \<Rightarrow> string" where
  "py_lstrip s = dropWhile py_isspace s"

definition py_rstrip :: "string \<Rightarrow> string" where
  "py_rstrip s = rev (dropWhile py_isspace (rev s))"

definition py_strip :: "string \<Rightarrow> string" where
  \<comment> \<open>\<open>s.strip()\<close>\<close>
  "py_strip s = py_rstrip (py_lstrip s)"

fun py_lower_char :: "char \<Rightarrow> char" where
  \<comment> \<open>the upper-case code points below 256 are \<open>A\<close> to \<open>Z\<close> and \<open>0xC0\<close> to \<open>0xDE\<close> without
     \<open>0xD7\<close>; each has bit 5 clear, and its lower case sets it (adds 32)\<close>
  "py_lower_char (Char b0 b1 b2 b3 b4 b5 b6 b7) =
     (let n = (of_char (Char b0 b1 b2 b3 b4 b5 b6 b7) :: int) in
      if (65 \<le> n \<and> n \<le> 90) \<or> (192 \<le> n \<and> n \<le> 222 \<and> n \<noteq> 215)
      then Char b0 b1 b2 b3 b4 True b6 b7
      else Char b0 b1 b2 b3 b4 b5 b6 b7)"

definition py_lower :: "string \<Rightarrow> string" where
  \<comment> \<open>\<open>s.lower()\<close>\<close>
  "py_lower s = map py_lower_char s"

definition py_startswith :: "string \<Rightarrow> string \<Rightarrow> bool" where
  \<comment> \<open>\<open>s.startswith(p)\<close>\<close>
  "py_startswith s p = (take (length p) s = p)"

fun py_in :: "string \<Rightarrow> string \<Rightarrow> bool" where
  \<comment> \<open>\<open>p in s\<close> for strings: \<open>p\<close> occurs in \<open>s\<close> as a substring\<close>
  "py_in p [] = (p = [])"
| "py_in p (c # cs) = (py_startswith (c # cs) p \<or> py_in p cs)"

fun py_split :: "char \<Rightarrow> string \<Rightarrow> string list" where
  \<comment> \<open>\<open>s.split(sep)\<close> for a one-character separator\<close>
  "py_split sep [] = [[]]"
| "py_split sep (c # cs) =
     (if c = sep then [] # py_split sep cs
      else (case py_split sep cs of
              [] \<Rightarrow> [[c]]
            | l # ls \<Rightarrow> (c # l) # ls))"

definition py_split1 :: "char \<Rightarrow> string \<Rightarrow> string list" where
  \<comment> \<open>\<open>s.split(sep, 1)\<close>: at most one split, at the first separator\<close>
  "py_split1 sep s =
     (if sep \<in> set s then [takeWhile (\<lambda>c. c \<noteq> sep) s, tl (dropWhile (\<lambda>c. c \<noteq> sep) s)]
      else [s])"

fun py_join :: "string \<Rightarrow> string list \<Rightarrow> string" where
  \<comment> \<open>\<open>sep.join(xs)\<close>\<close>
  "py_join sep [] = []"
| "py_join sep [x] = x"
| "py_join sep (x # y # ys) = x @ sep @ py_join sep (y # ys)"

definition py_replace_del :: "char \<Rightarrow> string \<Rightarrow> string" where
  \<comment> \<open>\<open>s.replace(c, '')\<close>: every occurrence of the character removed\<close>
  "py_replace_del c s = filter (\<lambda>x. x \<noteq> c) s"

datatype py_error = AttributeError | IndexError

definition py_index :: "'a list \<Rightarrow> nat \<Rightarrow> py_error + 'a" where
  \<comment> \<open>\<open>xs[i]\<close> for \<open>i \<ge> 0\<close>; out of range raises\<close>
  "py_index xs i = (if i < length xs then Inr (xs ! i) else Inl IndexError)"

section \<open>JSON values\<close>

text \<open>
  The value \<open>response.json()\<close> returns. An object is the association list of its dict;
  \<open>map_of\<close> is the lookup. The payload of a number is never inspected by the program.
\<close>

datatype json =
    JNull
  | JBool bool
  | JInt int
  | JFloat int int
  | JStr string
  | JList "json list"
  | JObj "(string \<times> json) list"

section \<open>Response normalizer (utils/gladia\_api.py)\<close>

fun first_str :: "string list \<Rightarrow> (string \<times> json) list \<Rightarrow> string option" where
  \<comment> \<open>\<open>for k in keys: val = d.get(k); if isinstance(val, str): \<dots>\<close> stops at the first hit\<close>
  "first_str [] d = None"
| "first_str (k # ks) d =
     (case map_of d k of Some (JStr s) \<Rightarrow> Some s | _ \<Rightarrow> first_str ks d)"

fun item_text :: "json \<Rightarrow> string option" where
  \<comment> \<open>what one element of a \<open>prediction\<close> list appends to \<open>texts\<close>\<close>
  "item_text (JObj d) =
     first_str [''transcription'', ''transcript'', ''text'', ''sentence'', ''segment''] d"
| "item_text (JStr s) = Some s"
| "item_text _ = None"

definition pred_list_text :: "json list \<Rightarrow> string option" where
  "pred_list_text items =
     (let texts = List.map_filter item_text items
      in if texts \<noteq> [] then Some (py_join [CHR 0x0A] texts) else None)"

definition from_prediction :: "json \<Rightarrow> string option" where
  \<comment> \<open>the block under \<open>if isinstance(result, dict) and "prediction" in result\<close>\<close>
  "from_prediction result =
     (case result of
        JObj d \<Rightarrow>
          (case map_of d ''prediction'' of
             None \<Rightarrow> None
           | Some (JStr s) \<Rightarrow> Some s
           | Some (JList items) \<Rightarrow> pred_list_text items
           | Some (JObj p) \<Rightarrow> first_str [''transcript'', ''text'', ''sentence'', ''segment''] p
           | Some _ \<Rightarrow> None)
      | _ \<Rightarrow> None)"

definition from_root :: "json \<Rightarrow> string option" where
  \<comment> \<open>\<open>for k in ("text", "transcription", "full_text")\<close> at the root\<close>
  "from_root result =
     (case result of
        JObj d \<Rightarrow> first_str [''text'', ''transcription'', ''full_text''] d
      | _ \<Rightarrow> None)"

fun from_containers :: "string list \<Rightarrow> (string \<times> json) list \<Rightarrow> string option" where
  \<comment> \<open>\<open>for container_key in ("result", "data")\<close>\<close>
  "from_containers [] d = None"
| "from_containers (ck # cks) d =
     (case map_of d ck of
        Some (JObj c) \<Rightarrow>
          (case first_str [''text'', ''transcription'', ''full_text'', ''prediction''] c of
             Some s \<Rightarrow> Some s
           | None \<Rightarrow> from_containers cks d)
      | _ \<Rightarrow> from_containers cks d)"

definition extract_transcript :: "json \<Rightarrow> py_error + string option" where
  \<comment> \<open>\<open>_extract_transcript\<close>; \<open>result.get\<close> on a value that is no dict raises\<close>
  "extract_transcript result =
     (case from_prediction result of
        Some t \<Rightarrow> Inr (Some t)
      | None \<Rightarrow>
          (case from_root result of
             Some t \<Rightarrow> Inr (Some t)
           | None \<Rightarrow>
               (case result of
                  JObj d \<Rightarrow> Inr (from_containers [''result'', ''data''] d)
                | _ \<Rightarrow> Inl AttributeError)))"

section \<open>Summary section parser (utils/gemini\_api.py)\<close>

text \<open>
  \<open>summary_data\<close> is a Python dict from section name to text: an association list,
  \<open>map_of\<close> for the lookup and \<open>AList.update\<close> for \<open>summary_data[k] = v\<close>.
\<close>

type_synonym summary_dict = "(string \<times> string) list"

record parse_state =
  summary_data :: summary_dict
  current_section :: "string option"
  section_content :: "string list"

definition initial_state :: parse_state where
  "initial_state =
     \<lparr>summary_data = [(''agenda'', []), (''summary'', []), (''action_items'', [])],
      current_section = None,
      section_content = []\<rparr>"

definition is_agenda_header :: "string \<Rightarrow> bool" where
  "is_agenda_header line =
     (py_startswith (py_lower line) ''**agenda:**'' \<or>
      py_startswith (py_lower line) ''agenda:'' \<or>
      (py_in ''agenda'' (py_lower line) \<and> CHR '':'' \<in> set line))"

definition is_summary_header :: "string \<Rightarrow> bool" where
  "is_summary_header line =
     (py_startswith (py_lower line) ''**ringkasan:**'' \<or>
      py_startswith (py_lower line) ''ringkasan:'' \<or>
      py_startswith (py_lower line) ''**summary:**'' \<or>
      py_startswith (py_lower line) ''summary:'' \<or>
      (py_in ''ringkasan'' (py_lower line) \<and> CHR '':'' \<in> set line) \<or>
      (py_in ''summary'' (py_lower line) \<and> CHR '':'' \<in> set line))"

definition is_action_header :: "string \<Rightarrow> bool" where
  "is_action_header line =
     (py_startswith (py_lower line) ''**action items:**'' \<or>
      py_startswith (py_lower line) ''action items:'' \<or>
      (py_in ''action items'' (py_lower line) \<and> CHR '':'' \<in> set line))"

definition section_open :: "parse_state \<Rightarrow> bool" where
  \<comment> \<open>the truth value of \<open>current_section\<close>: not \<open>None\<close> and not the empty string\<close>
  "section_open st = (case current_section st of None \<Rightarrow> False | Some k \<Rightarrow> k \<noteq> [])"

definition flush :: "parse_state \<Rightarrow> summary_dict" where
  \<comment> \<open>\<open>if current_section and section_content: summary_data[current_section] = \<dots>\<close>\<close>
  "flush st =
     (case current_section st of
        Some k \<Rightarrow>
          (if k \<noteq> [] \<and> section_content st \<noteq> []
           then AList.update k (py_strip (py_join [CHR 0x0A] (section_content st)))
                  (summary_data st)
           else summary_data st)
      | None \<Rightarrow> summary_data st)"

definition open_section :: "string \<Rightarrow> string \<Rightarrow> parse_state \<Rightarrow> py_error + parse_state" where
  \<comment> \<open>the body shared, word for word, by the three header branches\<close>
  "open_section name line st =
     (if CHR '':'' \<in> set line then
        (case py_index (py_split1 (CHR '':'') line) 1 of
           Inl e \<Rightarrow> Inl e
         | Inr rest \<Rightarrow>
             (let after_colon = py_strip rest in
              Inr \<lparr>summary_data = flush st,
                   current_section = Some name,
                   section_content =
                     (if after_colon \<noteq> [] \<and> after_colon \<noteq> ''**'' then [after_colon] else [])\<rparr>))
      else Inr \<lparr>summary_data = flush st, current_section = Some name, section_content = []\<rparr>)"

definition parse_line :: "parse_state \<Rightarrow> string \<Rightarrow> py_error + parse_state" where
  \<comment> \<open>one iteration of \<open>for line in lines\<close>\<close>
  "parse_line st raw =
     (let line = py_strip raw in
      if is_agenda_header line then open_section ''agenda'' line st
      else if is_summary_header line then open_section ''summary'' line st
      else if is_action_header line then open_section ''action_items'' line st
      else if section_open st \<and> line \<noteq> [] \<and> \<not> py_startswith line ''**'' then
        (let clean_line = py_strip (py_replace_del (CHR ''*'') line) in
         if clean_line \<noteq> [] then Inr (st\<lparr>section_content := section_content st @ [clean_line]\<rparr>)
         else Inr st)
      else Inr st)"

fun parse_lines :: "parse_state \<Rightarrow> string list \<Rightarrow> py_error + parse_state" where
  "parse_lines st [] = Inr st"
| "parse_lines st (l # ls) =
     (case parse_line st l of Inl e \<Rightarrow> Inl e | Inr st' \<Rightarrow> parse_lines st' ls)"

definition parse_gemini_response :: "string \<Rightarrow> summary_dict" where
  "parse_gemini_response generated_text =
     (case parse_lines initial_state (py_split (CHR 0x0A) (py_strip generated_text)) of
        Inl e \<Rightarrow>
          [(''agenda'', ''Error saat mengurai agenda''),
           (''summary'', py_strip generated_text),
           (''action_items'', ''Error saat mengurai action items'')]
      | Inr st \<Rightarrow>
          (let sd = flush st in
           if \<not> list_ex (\<lambda>(k, v). v \<noteq> []) sd then
             AList.update ''action_items'' ''Tidak dapat mengurai action items dari transkrip''
               (AList.update ''agenda'' ''Tidak dapat mengurai agenda dari transkrip''
                 (AList.update ''summary'' (py_strip generated_text) sd))
           else sd))"

section \<open>Summary presenter (utils/gemini\_api.py)\<close>

record formatted_summary =
  fs_summary :: string
  fs_agenda :: string
  fs_key_points :: string
  fs_action_items :: string

definition dict_get :: "summary_dict \<Rightarrow> string \<Rightarrow> string \<Rightarrow> string" where
  \<comment> \<open>\<open>d.get(k, default)\<close>\<close>
  "dict_get d k dflt = (case map_of d k of Some v \<Rightarrow> v | None \<Rightarrow> dflt)"

definition format_summary_for_frontend :: "summary_dict \<Rightarrow> formatted_summary" where
  "format_summary_for_frontend sd =
     \<lparr>fs_summary =
        ''Agenda:'' @ [CHR 0x0A] @
        dict_get sd ''agenda'' ''Tidak ada agenda yang teridentifikasi'' @
        [CHR 0x0A, CHR 0x0A] @ ''Ringkasan:'' @ [CHR 0x0A] @
        dict_get sd ''summary'' ''Tidak ada ringkasan tersedia'' @
        [CHR 0x0A, CHR 0x0A] @ ''Action Items:'' @ [CHR 0x0A] @
        dict_get sd ''action_items'' ''Tidak ada action items yang teridentifikasi'',
      fs_agenda = dict_get sd ''agenda'' ''Tidak ada agenda yang teridentifikasi'',
      fs_key_points = dict_get sd ''summary'' ''Tidak ada ringkasan tersedia'',
      fs_action_items =
        dict_get sd ''action_items'' ''Tidak ada action items yang teridentifikasi''\<rparr>"

section \<open>Transcription step (utils/gladia\_api.py)\<close>

type_synonym bytes = "char list"

fun rfind_from :: "char \<Rightarrow> string \<Rightarrow> int \<Rightarrow> int \<Rightarrow> int" where
  "rfind_from c [] i found = found"
| "rfind_from c (x # xs) i found = rfind_from c xs (i + 1) (if x = c then i else found)"

definition py_rfind :: "string \<Rightarrow> char \<Rightarrow> int" where
  \<comment> \<open>\<open>s.rfind(c)\<close>: the index of the last occurrence, \<open>-1\<close> when there is none\<close>
  "py_rfind s c = rfind_from c s 0 (- 1)"

definition splitext :: "string \<Rightarrow> string \<times> string" where
  \<comment> \<open>\<open>os.path.splitext\<close> of the standard library, POSIX flavour: the extension starts at
     the last dot, when that dot comes after the last \<open>/\<close> and after a character of the
     file name that is no dot\<close>
  "splitext p =
     (let sepIndex = py_rfind p (CHR ''/''); dotIndex = py_rfind p (CHR ''.'') in
      if dotIndex > sepIndex \<and>
         list_ex (\<lambda>c. c \<noteq> CHR ''.'')
           (take (nat (dotIndex - (sepIndex + 1))) (drop (nat (sepIndex + 1)) p))
      then (take (nat dotIndex) p, drop (nat dotIndex) p)
      else (p, []))"

definition guess_mime_type :: "string \<Rightarrow> string" where
  \<comment> \<open>\<open>_guess_mime_type\<close>\<close>
  "guess_mime_type filename =
     (case map_of
        [(''.mp3'', ''audio/mpeg''), (''.wav'', ''audio/wav''), (''.flac'', ''audio/flac''),
         (''.ogg'', ''audio/ogg''), (''.m4a'', ''audio/mp4''), (''.mp4'', ''video/mp4''),
         (''.mov'', ''video/quicktime''), (''.avi'', ''video/x-msvideo'')]
        (snd (splitext (py_lower filename))) of
        Some m \<Rightarrow> m
      | None \<Rightarrow> ''application/octet-stream'')"

text \<open>
  What \<open>requests.post\<close> does is a parameter of the model: it raises, or it returns a
  response with a status code, the value of \<open>response.json()\<close> (\<open>None\<close> when that raises
  \<open>ValueError\<close>) and the body text. Each function that reaches the network returns, beside
  its value, the list of the calls it made.
\<close>

datatype http_reply = Post_raises string | Reply nat "json option" string

type_synonym gladia_post = "bytes \<Rightarrow> string \<Rightarrow> string \<Rightarrow> http_reply"

datatype net_call = Gladia_post string string | Gemini_generate string

datatype diagnostic =
    Diag_text string
  | Diag_exception py_error
  | Diag_no_transcript "string list" string string
  | Diag_status nat json

definition type_repr :: "json option \<Rightarrow> string" where
  \<comment> \<open>\<open>str(type(v))\<close> for the value \<open>d.get(k)\<close> of a parsed JSON dict\<close>
  "type_repr v =
     ''<class '' @ [CHR 0x27] @
     (case v of
        None \<Rightarrow> ''NoneType''
      | Some JNull \<Rightarrow> ''NoneType''
      | Some (JBool b) \<Rightarrow> ''bool''
      | Some (JInt i) \<Rightarrow> ''int''
      | Some (JFloat m e) \<Rightarrow> ''float''
      | Some (JStr t) \<Rightarrow> ''str''
      | Some (JList xs) \<Rightarrow> ''list''
      | Some (JObj d) \<Rightarrow> ''dict'') @ [CHR 0x27] @ ''>''"

definition str_truthy :: "string option \<Rightarrow> bool" where
  \<comment> \<open>the truth value of an optional string: neither \<open>None\<close> nor empty\<close>
  "str_truthy t = (case t of None \<Rightarrow> False | Some s \<Rightarrow> s \<noteq> [])"

definition transcribe_audio_from_upload ::
  "gladia_post \<Rightarrow> bytes \<Rightarrow> string \<Rightarrow> (string option \<times> diagnostic option) \<times> net_call list" where
  "transcribe_audio_from_upload post file_content filename =
     (let mime = guess_mime_type filename in
      (case post file_content filename mime of
         Post_raises e \<Rightarrow> (None, Some (Diag_text e))
       | Reply status_code js text \<Rightarrow>
           (if status_code = 200 then
              (case js of
                 None \<Rightarrow>
                   (None, Some (Diag_text
                      (''Gladia returned non-JSON 200 response: '' @ take 500 text @ ''...'')))
               | Some result \<Rightarrow>
                   (case extract_transcript result of
                      Inl e \<Rightarrow> (None, Some (Diag_exception e))
                    | Inr transcript \<Rightarrow>
                        (if str_truthy transcript then (transcript, None)
                         else
                           (case result of
                              JObj d \<Rightarrow>
                                (None, Some (Diag_no_transcript (map fst d)
                                   (type_repr (map_of d ''prediction''))
                                   (type_repr (map_of d ''prediction_raw''))))
                            | _ \<Rightarrow> (None, Some (Diag_exception AttributeError))))))
            else
              (None, Some (Diag_status status_code
                 (case js of
                    Some err \<Rightarrow> err
                  | None \<Rightarrow> JObj [(''raw'', JStr (take 1000 text))])))),
       [Gladia_post filename mime]))"

section \<open>Summarization step (utils/gemini\_api.py)\<close>

text \<open>
  The SDK is a parameter too: creating the client raises or not, and
  \<open>generate_content\<close>, for a model name and the prompt built around the transcript,
  raises or gives the value \<open>text\<close> has when line 107 tests it.
\<close>

datatype sdk_reply = Sdk_raises string | Sdk_text "string option"

record genai_sdk =
  client_error :: "string option"
  generate_content :: "string \<Rightarrow> string \<Rightarrow> sdk_reply"

datatype err_details = Details_text string | Details_last string string

datatype summary_result = Error_dict "err_details option" | Parsed summary_dict

definition candidate_models :: "string list" where
  "candidate_models =
     [''gemini-2.5-flash'', ''gemini-1.5-flash-latest'', ''gemini-1.5-flash'',
      ''gemini-1.5-flash-8b'', ''gemini-1.5-pro-latest'', ''gemini-1.5-pro'']"

fun try_models ::
  "(string \<Rightarrow> string \<Rightarrow> sdk_reply) \<Rightarrow> string \<Rightarrow> string list \<Rightarrow> err_details option \<Rightarrow>
     summary_result \<times> net_call list" where
  \<comment> \<open>\<open>for model in candidate_models\<close>, with \<open>last_err\<close>\<close>
  "try_models gen transcript [] last_err = (Error_dict last_err, [])"
| "try_models gen transcript (model # models) last_err =
     (case gen model transcript of
        Sdk_raises e \<Rightarrow>
          (case try_models gen transcript models (Some (Details_last e model)) of
             (r, calls) \<Rightarrow> (r, Gemini_generate model # calls))
      | Sdk_text text \<Rightarrow>
          (if str_truthy text
           then (Parsed (parse_gemini_response (case text of Some t \<Rightarrow> t | None \<Rightarrow> [])),
                 [Gemini_generate model])
           else
             (case try_models gen transcript models (Some (Details_last ''no_text'' model)) of
                (r, calls) \<Rightarrow> (r, Gemini_generate model # calls))))"

definition generate_meeting_summary ::
  "genai_sdk \<Rightarrow> string \<Rightarrow> summary_result \<times> net_call list" where
  "generate_meeting_summary sdk transcript =
     (case client_error sdk of
        Some e \<Rightarrow> (Error_dict (Some (Details_text e)), [])
      | None \<Rightarrow> try_models (generate_content sdk) transcript candidate_models None)"

section \<open>Pipeline orchestrator (main.py)\<close>

text \<open>
  A handler returns the response and the calls made to the providers. The message texts
  are written without the emoji that begins each of them in the source (it lies outside
  the modelled code points); \<open>file_size_mb\<close>, a rounded float, is left out of the
  success bodies. The parameter \<open>file\<close> is \<open>None\<close> for a value that \<open>not file\<close> rejects;
  the file name of an upload is taken to be a string. The collaborators catch their own
  exceptions, so the \<open>except Exception\<close> clause of a handler has one source left in the
  model, \<open>len(transcript)\<close> on \<open>None\<close>; the test before it excludes that, and the model
  keeps the branch as a 500 response.

  \<open>Detail_text m\<close> is the detail string \<open>m\<close>; \<open>Detail_gladia m e\<close> is the detail
  \<open>{"message": m, "provider": "gladia", "error": e}\<close>; \<open>Detail_gemini m e\<close> is the detail
  \<open>{"message": m, "provider": "gemini", "error": e, \<dots>}\<close>. The three bodies are the \<open>data\<close>
  of the success responses of \<open>/transcribe\<close> (file name, transcript, its length),
  \<open>/summarize\<close> (transcript length, formatted summary) and \<open>/upload\<close> (file name,
  transcript length, transcript, formatted summary).
\<close>

record upload_file =
  filename :: string
  content :: bytes

datatype detail =
    Detail_text string
  | Detail_gladia string "diagnostic option"
  | Detail_gemini string "err_details option"

datatype body =
    Transcribe_data string string nat
  | Summarize_data nat formatted_summary
  | Upload_data string nat string formatted_summary

datatype response = HTTPException nat detail | JSONResponse nat body

fun status_of :: "response \<Rightarrow> nat" where
  "status_of (HTTPException c d) = c"
| "status_of (JSONResponse c b) = c"

definition allowed_extensions :: "string list" where
  "allowed_extensions =
     [''.mp3'', ''.wav'', ''.mp4'', ''.avi'', ''.mov'', ''.m4a'', ''.flac'', ''.ogg'']"

definition unsupported_detail :: "string \<Rightarrow> detail" where
  "unsupported_detail file_extension =
     Detail_text (''Unsupported file type: '' @ file_extension @ ''. Allowed: '' @
                  py_join '', '' allowed_extensions)"

definition transcribe_only ::
  "gladia_post \<Rightarrow> upload_file option \<Rightarrow> response \<times> net_call list" where
  "transcribe_only post file =
     (case file of
        None \<Rightarrow> (HTTPException 400 (Detail_text ''No file uploaded''), [])
      | Some f \<Rightarrow>
          (let file_size = length (content f) in
           if file_size > 100 * 1024 * 1024 then
             (HTTPException 413 (Detail_text ''File too large. Maximum size is 100MB''), [])
           else if file_size = 0 then
             (HTTPException 400 (Detail_text ''Empty file uploaded''), [])
           else
             (let file_extension = snd (splitext (py_lower (filename f))) in
              if file_extension \<notin> set allowed_extensions then
                (HTTPException 400 (unsupported_detail file_extension), [])
              else
                (case transcribe_audio_from_upload post (content f) (filename f) of
                   ((transcript, transcribe_error), calls) \<Rightarrow>
                     (if \<not> str_truthy transcript then
                        (HTTPException 500
                           (Detail_gladia
                              ''Failed to transcribe audio. Please check file format and try again.''
                              transcribe_error), calls)
                      else
                        (case transcript of
                           Some t \<Rightarrow>
                             (JSONResponse 200 (Transcribe_data (filename f) t (length t)), calls)
                         | None \<Rightarrow>
                             (HTTPException 500 (Detail_text ''Internal server error''), calls)))))))"

definition summarize_transcript ::
  "genai_sdk \<Rightarrow> json option \<Rightarrow> response \<times> net_call list" where
  \<comment> \<open>\<open>request_json\<close> is the value of \<open>await request.json()\<close>, \<open>None\<close> when it raises;
     \<open>.get\<close> on a body that is no dict and \<open>.strip\<close> on a value that is no string raise
     inside the same \<open>try\<close>\<close>
  "summarize_transcript sdk request_json =
     (case (case request_json of
              Some (JObj b) \<Rightarrow>
                (case map_of b ''transcript'' of
                   None \<Rightarrow> Some (py_strip [])
                 | Some (JStr t) \<Rightarrow> Some (py_strip t)
                 | Some _ \<Rightarrow> None)
            | _ \<Rightarrow> None) of
        None \<Rightarrow> (HTTPException 400 (Detail_text ''Invalid JSON request''), [])
      | Some transcript \<Rightarrow>
          (if transcript = [] then
             (HTTPException 400 (Detail_text ''No transcript provided''), [])
           else if length transcript < 10 then
             (HTTPException 400 (Detail_text ''Transcript too short to summarize''), [])
           else
             (case generate_meeting_summary sdk transcript of
                (Error_dict details, calls) \<Rightarrow>
                  (HTTPException 502
                     (Detail_gemini ''Failed to generate summary from Gemini.'' details), calls)
              | (Parsed sd, calls) \<Rightarrow>
                  (JSONResponse 200
                     (Summarize_data (length transcript)
                        (format_summary_for_frontend sd)), calls))))"

definition upload_and_process_meeting ::
  "gladia_post \<Rightarrow> genai_sdk \<Rightarrow> upload_file option \<Rightarrow> response \<times> net_call list" where
  "upload_and_process_meeting post sdk file =
     (case file of
        None \<Rightarrow> (HTTPException 400 (Detail_text ''No file uploaded''), [])
      | Some f \<Rightarrow>
          (let file_size = length (content f) in
           if file_size > 100 * 1024 * 1024 then
             (HTTPException 413 (Detail_text ''File too large. Maximum size is 100MB''), [])
           else if file_size = 0 then
             (HTTPException 400 (Detail_text ''Empty file uploaded''), [])
           else
             (let file_extension = snd (splitext (py_lower (filename f))) in
              if file_extension \<notin> set allowed_extensions then
                (HTTPException 400 (unsupported_detail file_extension), [])
              else
                (case transcribe_audio_from_upload post (content f) (filename f) of
                   ((transcript, transcribe_error), calls) \<Rightarrow>
                     (if \<not> str_truthy transcript then
                        (HTTPException 500
                           (Detail_gladia
                              ''Failed to transcribe audio. Please check file format and try again.''
                              transcribe_error), calls)
                      else
                        (case transcript of
                           None \<Rightarrow>
                             (HTTPException 500 (Detail_text ''Internal server error''), calls)
                         | Some t \<Rightarrow>
                             (case generate_meeting_summary sdk t of
                                (Error_dict details, calls') \<Rightarrow>
                                  (HTTPException 502
                                     (Detail_gemini
                                        (''Failed to generate summary from Gemini. '' @
                                         ''Please verify the model availability and try again.'')
                                        details), calls @ calls')
                              | (Parsed sd, calls') \<Rightarrow>
                                  (JSONResponse 200
                                     (Upload_data (filename f) (length t) t
                                        (format_summary_for_frontend sd)),
                                   calls @ calls'))))))))"

section \<open>Vocabulary of the statements and example collaborators\<close>

definition str_at :: "(string \<times> json) list \<Rightarrow> string \<Rightarrow> string option" where
  \<comment> \<open>the value of key \<open>k\<close> when it is a string\<close>
  "str_at d k = (case map_of d k of Some (JStr s) \<Rightarrow> Some s | _ \<Rightarrow> None)"

definition sub_obj :: "(string \<times> json) list \<Rightarrow> string \<Rightarrow> (string \<times> json) list" where
  \<comment> \<open>the sub-object under key \<open>k\<close>; no entries when \<open>k\<close> is absent or holds no object\<close>
  "sub_obj d k = (case map_of d k of Some (JObj c) \<Rightarrow> c | _ \<Rightarrow> [])"

fun first_some :: "'a option list \<Rightarrow> 'a option" where
  "first_some [] = None"
| "first_some (None # xs) = first_some xs"
| "first_some (Some x # xs) = Some x"

definition example_sdk :: genai_sdk where
  "example_sdk =
     \<lparr>client_error = None,
      generate_content = (\<lambda>model transcript. Sdk_text (Some ''agenda: a''))\<rparr>"

definition example_post :: gladia_post where
  "example_post file_content name mime =
     Reply 200 (Some (JObj [(''prediction'', JStr [])])) []"

definition header_of :: "string \<Rightarrow> string option" where
  \<comment> \<open>the section a trimmed line opens, in the order of the \<open>if\<close>/\<open>elif\<close> chain\<close>
  "header_of line =
     (if is_agenda_header line then Some ''agenda''
      else if is_summary_header line then Some ''summary''
      else if is_action_header line then Some ''action_items''
      else None)"

definition header_tail :: "string \<Rightarrow> string list" where
  \<comment> \<open>what a header line puts into the new accumulator: the trimmed text after its first
     colon, unless that is empty or \<open>**\<close>\<close>
  "header_tail line =
     (if CHR '':'' \<in> set line \<and>
         py_strip (tl (dropWhile (\<lambda>c. c \<noteq> CHR '':'') line)) \<noteq> [] \<and>
         py_strip (tl (dropWhile (\<lambda>c. c \<noteq> CHR '':'') line)) \<noteq> ''**''
      then [py_strip (tl (dropWhile (\<lambda>c. c \<noteq> CHR '':'') line))]
      else [])"

definition content_of :: "string \<Rightarrow> string list" where
  \<comment> \<open>what a trimmed line that is no header adds to the accumulator of an open section\<close>
  "content_of line =
     (if line \<noteq> [] \<and> \<not> py_startswith line ''**'' \<and>
         py_strip (py_replace_del (CHR ''*'') line) \<noteq> []
      then [py_strip (py_replace_del (CHR ''*'') line)]
      else [])"

definition step :: "parse_state \<Rightarrow> string \<Rightarrow> parse_state" where
  \<comment> \<open>one iteration of the loop on a trimmed line, in terms of the three functions above\<close>
  "step st line =
     (case header_of line of
        Some name \<Rightarrow>
          \<lparr>summary_data = flush st, current_section = Some name,
           section_content = header_tail line\<rparr>
      | None \<Rightarrow>
          (if section_open st
           then st\<lparr>section_content := section_content st @ content_of line\<rparr>
           else st))"

definition section_body :: "string \<Rightarrow> string list \<Rightarrow> string list" where
  \<comment> \<open>the content lines the parser collects for header line \<open>h\<close> followed by the lines
     \<open>rest\<close>: up to the next header\<close>
  "section_body h rest =
     header_tail (py_strip h) @
     concat (map (\<lambda>l. content_of (py_strip l))
                 (takeWhile (\<lambda>l. header_of (py_strip l) = None) rest))"

definition solid :: "string \<Rightarrow> bool" where
  \<comment> \<open>some character is no whitespace\<close>
  "solid s = list_ex (\<lambda>c. \<not> py_isspace c) s"

definition holds :: "string \<Rightarrow> string \<Rightarrow> parse_state \<Rightarrow> bool" where
  \<comment> \<open>section \<open>k\<close> is closed with value \<open>v\<close>\<close>
  "holds k v st = (current_section st \<noteq> Some k \<and> map_of (summary_data st) k = Some v)"

definition example_state :: parse_state where
  \<comment> \<open>the agenda section open, one line collected\<close>
  "example_state =
     \<lparr>summary_data = [(''agenda'', []), (''summary'', []), (''action_items'', [])],
      current_section = Some ''agenda'',
      section_content = [''- satu'']\<rparr>"

section \<open>Properties of the normalizer\<close>

lemma first_str_first_some: "first_str ks d = first_some (map (str_at d) ks)"
  by (induction ks) (auto simp: str_at_def split: option.splits json.splits)

lemma first_some_append:
  "first_some (xs @ ys) = (case first_some xs of Some x \<Rightarrow> Some x | None \<Rightarrow> first_some ys)"
  by (induction xs rule: first_some.induct) auto

lemma first_str_sub_obj:
  "(case map_of d ck of
      Some (JObj c) \<Rightarrow> (case first_str ks c of Some s \<Rightarrow> Some s | None \<Rightarrow> r)
    | _ \<Rightarrow> r) =
   (case first_some (map (str_at (sub_obj d ck)) ks) of Some s \<Rightarrow> Some s | None \<Rightarrow> r)"
proof -
  have empty: "first_some (map (str_at []) ks) = None"
    by (induction ks) (auto simp: str_at_def)
  show ?thesis
    by (simp add: sub_obj_def empty first_str_first_some split: option.splits json.splits)
qed

lemma from_containers_result_data:
  "from_containers [''result'', ''data''] d =
     first_some
       (map (str_at (sub_obj d ''result''))
          [''text'', ''transcription'', ''full_text'', ''prediction''] @
        map (str_at (sub_obj d ''data''))
          [''text'', ''transcription'', ''full_text'', ''prediction''])"
  unfolding from_containers.simps first_str_sub_obj first_some_append
  by (simp split: option.splits)

text \<open>
  Claim C2. The spec has a \<open>prediction\<close> that is a mapping looked up with the five keys
  of the list elements, \<open>transcription\<close> first. The code looks up four keys there, without
  \<open>transcription\<close>: for every string \<open>s\<close> the payload \<open>{"prediction": {"transcription": s}}\<close>
  gives no transcript, while the same mapping as the element of a list gives \<open>s\<close>.
\<close>

theorem prediction_dict_skips_transcription:
  "extract_transcript (JObj [(''prediction'', JObj [(''transcription'', JStr s)])]) = Inr None \<and>
   extract_transcript (JObj [(''prediction'', JList [JObj [(''transcription'', JStr s)]])]) =
     Inr (Some s)"
  by (simp add: extract_transcript_def from_prediction_def from_root_def pred_list_text_def
      List.map_filter_simps)

text \<open>
  Claim C4, as stated, fails: a string under \<open>result["prediction"]\<close> is returned, not
  absent.
\<close>

theorem nested_prediction_counterexample:
  "extract_transcript (JObj [(''result'', JObj [(''prediction'', JStr ''halo'')])]) =
     Inr (Some ''halo'') \<and>
   extract_transcript (JObj [(''result'', JObj [(''prediction'', JStr ''halo'')])]) \<noteq> Inr None"
  by (simp add: extract_transcript_def from_prediction_def from_root_def)

text \<open>
  Claim C4, amended. When the \<open>prediction\<close> rules and the three root keys have produced
  nothing, the normalizer returns the first string among the four keys \<open>text\<close>,
  \<open>transcription\<close>, \<open>full_text\<close>, \<open>prediction\<close>, in that order, under the \<open>result\<close>
  sub-object and then under the \<open>data\<close> sub-object, and absent when there is none.
\<close>

theorem nested_lookup_order:
  assumes "from_prediction (JObj d) = None"
    and "str_at d ''text'' = None"
    and "str_at d ''transcription'' = None"
    and "str_at d ''full_text'' = None"
  shows "extract_transcript (JObj d) =
     Inr (first_some
       [str_at (sub_obj d ''result'') ''text'',
        str_at (sub_obj d ''result'') ''transcription'',
        str_at (sub_obj d ''result'') ''full_text'',
        str_at (sub_obj d ''result'') ''prediction'',
        str_at (sub_obj d ''data'') ''text'',
        str_at (sub_obj d ''data'') ''transcription'',
        str_at (sub_obj d ''data'') ''full_text'',
        str_at (sub_obj d ''data'') ''prediction''])"
proof -
  have "from_root (JObj d) = None"
    using assms(2-4) by (simp add: from_root_def first_str_first_some)
  then show ?thesis
    using assms(1)
    by (simp add: extract_transcript_def from_containers_result_data del: from_containers.simps)
qed

theorem nested_lookup_order_witness:
  "from_prediction (JObj [(''data'', JObj [(''prediction'', JStr ''halo'')])]) = None \<and>
   str_at [(''data'', JObj [(''prediction'', JStr ''halo'')])] ''text'' = None \<and>
   str_at [(''data'', JObj [(''prediction'', JStr ''halo'')])] ''transcription'' = None \<and>
   str_at [(''data'', JObj [(''prediction'', JStr ''halo'')])] ''full_text'' = None \<and>
   extract_transcript (JObj [(''data'', JObj [(''prediction'', JStr ''halo'')])]) =
     Inr (Some ''halo'')"
  using nested_lookup_order [of "[(''data'', JObj [(''prediction'', JStr ''halo'')])]"]
  by (simp add: from_prediction_def str_at_def sub_obj_def)

section \<open>Properties of the pipelines\<close>

lemma length_py_strip_le: "length (py_strip s) \<le> length s"
proof -
  have "length (py_strip s) \<le> length (py_lstrip s)"
    by (simp add: py_strip_def py_rstrip_def) (metis length_dropWhile_le length_rev)
  also have "\<dots> \<le> length s"
    by (simp add: py_lstrip_def length_dropWhile_le)
  finally show ?thesis .
qed

lemma py_strip_Nil: "py_strip [] = []"
  by (simp add: py_strip_def py_rstrip_def py_lstrip_def)

text \<open>
  Claim C7, as stated, fails: a transcript of exactly 10 characters that ends in a space
  is rejected with 400, because the length test is made after \<open>strip\<close>.
\<close>

theorem summarize_ten_chars_counterexample:
  "length ''notulensi '' = 10 \<and>
   summarize_transcript example_sdk (Some (JObj [(''transcript'', JStr ''notulensi '')])) =
     (HTTPException 400 (Detail_text ''Transcript too short to summarize''), [])"
  by code_simp

text \<open>
  Claim C7, amended. \<open>/summarize\<close> compares the length of the transcript after trimming
  surrounding whitespace. A missing transcript, and one whose trimmed length is below 10
  (the empty one included), is rejected with 400 and the summarization provider is not
  called; so is every transcript of 9 characters. A transcript whose trimmed length is
  at least 10 passes: the response is that of the summarization step, 200 or 502, run
  on the trimmed transcript.
\<close>

theorem summarize_length_check:
  "(map_of b ''transcript'' = None \<longrightarrow>
      status_of (fst (summarize_transcript sdk (Some (JObj b)))) = 400 \<and>
      snd (summarize_transcript sdk (Some (JObj b))) = []) \<and>
   (map_of b ''transcript'' = Some (JStr t) \<and> length (py_strip t) < 10 \<longrightarrow>
      status_of (fst (summarize_transcript sdk (Some (JObj b)))) = 400 \<and>
      snd (summarize_transcript sdk (Some (JObj b))) = []) \<and>
   (map_of b ''transcript'' = Some (JStr t) \<and> length t = 9 \<longrightarrow>
      status_of (fst (summarize_transcript sdk (Some (JObj b)))) = 400 \<and>
      snd (summarize_transcript sdk (Some (JObj b))) = []) \<and>
   (map_of b ''transcript'' = Some (JStr t) \<and> 10 \<le> length (py_strip t) \<longrightarrow>
      status_of (fst (summarize_transcript sdk (Some (JObj b)))) \<in> {200, 502} \<and>
      snd (summarize_transcript sdk (Some (JObj b))) =
        snd (generate_meeting_summary sdk (py_strip t)))"
proof -
  have missing: "status_of (fst (summarize_transcript sdk (Some (JObj b)))) = 400 \<and>
                 snd (summarize_transcript sdk (Some (JObj b))) = []"
    if "map_of b ''transcript'' = None"
    using that by (simp add: summarize_transcript_def py_strip_Nil)
  have short: "status_of (fst (summarize_transcript sdk (Some (JObj b)))) = 400 \<and>
               snd (summarize_transcript sdk (Some (JObj b))) = []"
    if "map_of b ''transcript'' = Some (JStr t)" and "length (py_strip t) < 10"
    using that by (simp add: summarize_transcript_def)
  have nine: "length (py_strip t) < 10" if "length t = 9"
    using that length_py_strip_le [of t] by simp
  have long: "status_of (fst (summarize_transcript sdk (Some (JObj b)))) \<in> {200, 502} \<and>
              snd (summarize_transcript sdk (Some (JObj b))) =
                snd (generate_meeting_summary sdk (py_strip t))"
    if present: "map_of b ''transcript'' = Some (JStr t)" and "10 \<le> length (py_strip t)"
  proof -
    from that have ne: "py_strip t \<noteq> []" and ge: "\<not> length (py_strip t) < 10"
      by auto
    show ?thesis
      using present ne ge
      by (simp add: summarize_transcript_def split: prod.splits summary_result.splits)
  qed
  from missing short nine long show ?thesis by blast
qed

theorem summarize_length_check_witness:
  "map_of [(''transcript'', JStr ''notulensi'')] ''transcript'' = Some (JStr ''notulensi'') \<and>
   length ''notulensi'' = 9 \<and> length (py_strip ''notulensi'') < 10 \<and>
   status_of (fst (summarize_transcript example_sdk
     (Some (JObj [(''transcript'', JStr ''notulensi'')])))) = 400 \<and>
   snd (summarize_transcript example_sdk
     (Some (JObj [(''transcript'', JStr ''notulensi'')]))) = [] \<and>
   map_of [(''transcript'', JStr ''rapat besar'')] ''transcript'' = Some (JStr ''rapat besar'') \<and>
   10 \<le> length (py_strip ''rapat besar'') \<and>
   status_of (fst (summarize_transcript example_sdk
     (Some (JObj [(''transcript'', JStr ''rapat besar'')])))) \<in> {200, 502} \<and>
   map_of [] ''transcript'' = (None :: json option) \<and>
   status_of (fst (summarize_transcript example_sdk (Some (JObj [])))) = 400"
proof -
  have c: "py_strip ''notulensi'' = ''notulensi''" by code_simp
  have d: "py_strip ''rapat besar'' = ''rapat besar''" by code_simp
  show ?thesis
    using summarize_length_check
            [of "[(''transcript'', JStr ''notulensi'')]" example_sdk "''notulensi''"]
          summarize_length_check
            [of "[(''transcript'', JStr ''rapat besar'')]" example_sdk "''rapat besar''"]
          summarize_length_check [of "[]" example_sdk "[]"]
    by (simp add: c d)
qed

lemma try_models_calls: "snd (try_models gen t (m # ms) le) \<noteq> []"
  by (cases "gen m t") (auto split: prod.splits)

lemma transcribe_calls:
  "snd (transcribe_audio_from_upload post c fn) = [Gladia_post fn (guess_mime_type fn)]"
  by (simp add: transcribe_audio_from_upload_def Let_def)

lemma upload_after_validation:
  assumes "0 < length (content f)" and "length (content f) \<le> 104857600"
    and "snd (splitext (py_lower (filename f))) \<in> set allowed_extensions"
  shows "\<exists>r calls. upload_and_process_meeting post sdk (Some f) =
           (r, Gladia_post (filename f) (guess_mime_type (filename f)) # calls) \<and>
           status_of r \<in> {200, 500, 502}"
proof -
  obtain tr er cs where t: "transcribe_audio_from_upload post (content f) (filename f) = ((tr, er), cs)"
    by (metis surj_pair)
  with transcribe_calls [of post "content f" "filename f"]
  have cs: "cs = [Gladia_post (filename f) (guess_mime_type (filename f))]" by simp
  show ?thesis
    using assms t cs
    by (auto simp: upload_and_process_meeting_def Let_def
        split: option.splits prod.splits summary_result.splits)
qed

lemma transcribe_after_validation:
  assumes "0 < length (content f)" and "length (content f) \<le> 104857600"
    and "snd (splitext (py_lower (filename f))) \<in> set allowed_extensions"
  shows "\<exists>r. transcribe_only post (Some f) =
           (r, [Gladia_post (filename f) (guess_mime_type (filename f))]) \<and>
           status_of r \<in> {200, 500}"
proof -
  obtain tr er cs where t: "transcribe_audio_from_upload post (content f) (filename f) = ((tr, er), cs)"
    by (metis surj_pair)
  with transcribe_calls [of post "content f" "filename f"]
  have cs: "cs = [Gladia_post (filename f) (guess_mime_type (filename f))]" by simp
  show ?thesis
    using assms t cs
    by (auto simp: transcribe_only_def Let_def
        split: option.splits prod.splits summary_result.splits)
qed

text \<open>
  Claim C8. In \<open>/upload\<close> and \<open>/transcribe\<close> a file of 0 bytes is rejected with 400
  and a file of more than 104857600 bytes (100 MiB) with 413, before any provider is called;
  a file of 1 to 104857600 bytes passes both size checks, and with an allowed extension
  the pipeline goes on to call the transcription provider.
\<close>

theorem upload_size_bounds:
  "(length (content f) = 0 \<longrightarrow>
      upload_and_process_meeting post sdk (Some f) =
        (HTTPException 400 (Detail_text ''Empty file uploaded''), []) \<and>
      transcribe_only post (Some f) =
        (HTTPException 400 (Detail_text ''Empty file uploaded''), [])) \<and>
   (104857600 < length (content f) \<longrightarrow>
      upload_and_process_meeting post sdk (Some f) =
        (HTTPException 413 (Detail_text ''File too large. Maximum size is 100MB''), []) \<and>
      transcribe_only post (Some f) =
        (HTTPException 413 (Detail_text ''File too large. Maximum size is 100MB''), [])) \<and>
   (0 < length (content f) \<and> length (content f) \<le> 104857600 \<longrightarrow>
      status_of (fst (upload_and_process_meeting post sdk (Some f))) \<noteq> 413 \<and>
      fst (upload_and_process_meeting post sdk (Some f)) \<noteq>
        HTTPException 400 (Detail_text ''Empty file uploaded'') \<and>
      status_of (fst (transcribe_only post (Some f))) \<noteq> 413 \<and>
      fst (transcribe_only post (Some f)) \<noteq>
        HTTPException 400 (Detail_text ''Empty file uploaded'') \<and>
      (snd (splitext (py_lower (filename f))) \<in> set allowed_extensions \<longrightarrow>
         snd (upload_and_process_meeting post sdk (Some f)) \<noteq> [] \<and>
         snd (transcribe_only post (Some f)) \<noteq> []))"
proof -
  have empty: "upload_and_process_meeting post sdk (Some f) =
        (HTTPException 400 (Detail_text ''Empty file uploaded''), []) \<and>
      transcribe_only post (Some f) =
        (HTTPException 400 (Detail_text ''Empty file uploaded''), [])"
    if "length (content f) = 0"
    using that by (simp add: upload_and_process_meeting_def transcribe_only_def)
  have large: "upload_and_process_meeting post sdk (Some f) =
        (HTTPException 413 (Detail_text ''File too large. Maximum size is 100MB''), []) \<and>
      transcribe_only post (Some f) =
        (HTTPException 413 (Detail_text ''File too large. Maximum size is 100MB''), [])"
    if "104857600 < length (content f)"
    using that by (simp add: upload_and_process_meeting_def transcribe_only_def)
  have inside: "status_of (fst (upload_and_process_meeting post sdk (Some f))) \<noteq> 413 \<and>
      fst (upload_and_process_meeting post sdk (Some f)) \<noteq>
        HTTPException 400 (Detail_text ''Empty file uploaded'') \<and>
      status_of (fst (transcribe_only post (Some f))) \<noteq> 413 \<and>
      fst (transcribe_only post (Some f)) \<noteq>
        HTTPException 400 (Detail_text ''Empty file uploaded'')"
    if size: "0 < length (content f) \<and> length (content f) \<le> 104857600"
  proof (cases "snd (splitext (py_lower (filename f))) \<in> set allowed_extensions")
    case True
    from size True upload_after_validation [of f post sdk] transcribe_after_validation [of f post]
    show ?thesis by auto
  next
    case False
    with size show ?thesis
      by (simp add: upload_and_process_meeting_def transcribe_only_def Let_def
          unsupported_detail_def)
  qed
  have called: "snd (upload_and_process_meeting post sdk (Some f)) \<noteq> [] \<and>
         snd (transcribe_only post (Some f)) \<noteq> []"
    if "0 < length (content f) \<and> length (content f) \<le> 104857600"
      and "snd (splitext (py_lower (filename f))) \<in> set allowed_extensions"
    using that upload_after_validation [of f post sdk] transcribe_after_validation [of f post]
    by auto
  from empty large inside called show ?thesis by blast
qed

theorem upload_size_bounds_witness:
  "0 < length (content \<lparr>filename = ''rapat.mp3'', content = replicate 104857600 (CHR 0x00)\<rparr>) \<and>
   length (content \<lparr>filename = ''rapat.mp3'', content = replicate 104857600 (CHR 0x00)\<rparr>)
     \<le> 104857600 \<and>
   snd (splitext (py_lower (filename
     \<lparr>filename = ''rapat.mp3'', content = replicate 104857600 (CHR 0x00)\<rparr>)))
     \<in> set allowed_extensions \<and>
   status_of (fst (upload_and_process_meeting example_post example_sdk
     (Some \<lparr>filename = ''rapat.mp3'', content = replicate 104857600 (CHR 0x00)\<rparr>))) \<noteq> 413 \<and>
   snd (upload_and_process_meeting example_post example_sdk
     (Some \<lparr>filename = ''rapat.mp3'', content = replicate 104857600 (CHR 0x00)\<rparr>)) \<noteq> [] \<and>
   104857600 < length (content \<lparr>filename = ''rapat.mp3'', content = replicate 104857601 (CHR 0x00)\<rparr>) \<and>
   status_of (fst (upload_and_process_meeting example_post example_sdk
     (Some \<lparr>filename = ''rapat.mp3'', content = replicate 104857601 (CHR 0x00)\<rparr>))) = 413 \<and>
   length (content \<lparr>filename = ''rapat.mp3'', content = []\<rparr>) = 0 \<and>
   status_of (fst (transcribe_only example_post
     (Some \<lparr>filename = ''rapat.mp3'', content = []\<rparr>))) = 400"
proof -
  have ext: "snd (splitext (py_lower ''rapat.mp3'')) \<in> set allowed_extensions"
    by code_simp
  show ?thesis
    using upload_size_bounds
            [of "\<lparr>filename = ''rapat.mp3'', content = replicate 104857600 (CHR 0x00)\<rparr>"
                example_post example_sdk]
          upload_size_bounds
            [of "\<lparr>filename = ''rapat.mp3'', content = replicate 104857601 (CHR 0x00)\<rparr>"
                example_post example_sdk]
          upload_size_bounds
            [of "\<lparr>filename = ''rapat.mp3'', content = []\<rparr>" example_post example_sdk]
    by (simp add: ext)
qed

text \<open>
  Claim C9. An \<open>/upload\<close> request with no file, an empty file, a file of more than
  100 MiB or an extension outside the allow-list (compared in lower case) gets a 400 or
  413 response and no provider is called; whenever a provider is called, every check has
  passed and the first call is the transcription request.
\<close>

theorem upload_validation_before_providers:
  "upload_and_process_meeting post sdk None =
     (HTTPException 400 (Detail_text ''No file uploaded''), []) \<and>
   (length (content f) = 0 \<or> 104857600 < length (content f) \<or>
    snd (splitext (py_lower (filename f))) \<notin> set allowed_extensions \<longrightarrow>
      snd (upload_and_process_meeting post sdk (Some f)) = [] \<and>
      status_of (fst (upload_and_process_meeting post sdk (Some f))) \<in> {400, 413}) \<and>
   (snd (upload_and_process_meeting post sdk (Some f)) \<noteq> [] \<longrightarrow>
      0 < length (content f) \<and> length (content f) \<le> 104857600 \<and>
      snd (splitext (py_lower (filename f))) \<in> set allowed_extensions \<and>
      hd (snd (upload_and_process_meeting post sdk (Some f))) =
        Gladia_post (filename f) (guess_mime_type (filename f)))"
proof -
  have none: "upload_and_process_meeting post sdk None =
     (HTTPException 400 (Detail_text ''No file uploaded''), [])"
    by (simp add: upload_and_process_meeting_def)
  have rejected: "snd (upload_and_process_meeting post sdk (Some f)) = [] \<and>
      status_of (fst (upload_and_process_meeting post sdk (Some f))) \<in> {400, 413}"
    if "length (content f) = 0 \<or> 104857600 < length (content f) \<or>
        snd (splitext (py_lower (filename f))) \<notin> set allowed_extensions"
    using that by (auto simp: upload_and_process_meeting_def Let_def)
  have passed: "hd (snd (upload_and_process_meeting post sdk (Some f))) =
        Gladia_post (filename f) (guess_mime_type (filename f))"
    if "0 < length (content f)" "length (content f) \<le> 104857600"
       "snd (splitext (py_lower (filename f))) \<in> set allowed_extensions"
    using upload_after_validation [OF that, of post sdk] by auto
  from none rejected passed show ?thesis
    by (metis not_gr_zero not_le_imp_less)
qed

theorem upload_validation_before_providers_witness:
  "snd (splitext (py_lower (filename \<lparr>filename = ''Notulen.PDF'', content = ''x''\<rparr>)))
     \<notin> set allowed_extensions \<and>
   snd (upload_and_process_meeting example_post example_sdk
     (Some \<lparr>filename = ''Notulen.PDF'', content = ''x''\<rparr>)) = [] \<and>
   status_of (fst (upload_and_process_meeting example_post example_sdk
     (Some \<lparr>filename = ''Notulen.PDF'', content = ''x''\<rparr>))) \<in> {400, 413} \<and>
   snd (upload_and_process_meeting example_post example_sdk
     (Some \<lparr>filename = ''Rapat.WAV'', content = ''x''\<rparr>)) \<noteq> [] \<and>
   hd (snd (upload_and_process_meeting example_post example_sdk
     (Some \<lparr>filename = ''Rapat.WAV'', content = ''x''\<rparr>))) =
     Gladia_post ''Rapat.WAV'' ''audio/wav''"
proof -
  have ext: "snd (splitext (py_lower ''Notulen.PDF'')) \<notin> set allowed_extensions"
    by code_simp
  have ext2: "snd (splitext (py_lower ''Rapat.WAV'')) \<in> set allowed_extensions"
    by code_simp
  have calls: "snd (upload_and_process_meeting example_post example_sdk
     (Some \<lparr>filename = ''Rapat.WAV'', content = ''x''\<rparr>)) \<noteq> []"
    using upload_after_validation
            [of "\<lparr>filename = ''Rapat.WAV'', content = ''x''\<rparr>" example_post example_sdk] ext2
    by auto
  have mime: "guess_mime_type ''Rapat.WAV'' = ''audio/wav''"
    by code_simp
  show ?thesis
    using upload_validation_before_providers
            [of example_post example_sdk "\<lparr>filename = ''Notulen.PDF'', content = ''x''\<rparr>"]
          upload_validation_before_providers
            [of example_post example_sdk "\<lparr>filename = ''Rapat.WAV'', content = ''x''\<rparr>"]
    by (simp add: ext calls mime)
qed

lemma extract_Inr_obj: "extract_transcript result = Inr t \<Longrightarrow> \<exists>d. result = JObj d"
  by (cases result) (auto simp: extract_transcript_def from_prediction_def from_root_def)

text \<open>
  Claim C10. When the transcription provider answers 200 with a JSON payload from which
  the normalizer recovers the empty string, \<open>transcribe_audio_from_upload\<close> returns no
  transcript and a diagnostic, and \<open>/upload\<close> and \<open>/transcribe\<close>, for a file that passed
  validation, answer 500 with that diagnostic after the single transcription call: the
  summarization provider is not called.
\<close>

theorem empty_transcript_is_failure:
  assumes reply: "post (content f) (filename f) (guess_mime_type (filename f)) =
                    Reply 200 (Some result) raw"
    and empty: "extract_transcript result = Inr (Some [])"
  shows "\<exists>diag.
     transcribe_audio_from_upload post (content f) (filename f) =
       ((None, Some diag), [Gladia_post (filename f) (guess_mime_type (filename f))]) \<and>
     (0 < length (content f) \<and> length (content f) \<le> 104857600 \<and>
      snd (splitext (py_lower (filename f))) \<in> set allowed_extensions \<longrightarrow>
        upload_and_process_meeting post sdk (Some f) =
          (HTTPException 500
             (Detail_gladia
                ''Failed to transcribe audio. Please check file format and try again.''
                (Some diag)),
           [Gladia_post (filename f) (guess_mime_type (filename f))]) \<and>
        transcribe_only post (Some f) =
          (HTTPException 500
             (Detail_gladia
                ''Failed to transcribe audio. Please check file format and try again.''
                (Some diag)),
           [Gladia_post (filename f) (guess_mime_type (filename f))]))"
proof -
  from empty obtain d where d: "result = JObj d"
    using extract_Inr_obj by blast
  define diag where "diag = Diag_no_transcript (map fst d)
     (type_repr (map_of d ''prediction'')) (type_repr (map_of d ''prediction_raw''))"
  have step: "transcribe_audio_from_upload post (content f) (filename f) =
       ((None, Some diag), [Gladia_post (filename f) (guess_mime_type (filename f))])"
    using reply empty d
    by (simp add: transcribe_audio_from_upload_def Let_def str_truthy_def diag_def)
  have handlers: "upload_and_process_meeting post sdk (Some f) =
          (HTTPException 500
             (Detail_gladia
                ''Failed to transcribe audio. Please check file format and try again.''
                (Some diag)),
           [Gladia_post (filename f) (guess_mime_type (filename f))]) \<and>
        transcribe_only post (Some f) =
          (HTTPException 500
             (Detail_gladia
                ''Failed to transcribe audio. Please check file format and try again.''
                (Some diag)),
           [Gladia_post (filename f) (guess_mime_type (filename f))])"
    if "0 < length (content f) \<and> length (content f) \<le> 104857600 \<and>
      snd (splitext (py_lower (filename f))) \<in> set allowed_extensions"
    using that step
    by (simp add: upload_and_process_meeting_def transcribe_only_def Let_def str_truthy_def)
  from step handlers show ?thesis by blast
qed

theorem empty_transcript_is_failure_witness:
  "example_post ''x'' ''rapat.wav'' (guess_mime_type ''rapat.wav'') =
     Reply 200 (Some (JObj [(''prediction'', JStr [])])) [] \<and>
   extract_transcript (JObj [(''prediction'', JStr [])]) = Inr (Some []) \<and>
   snd (splitext (py_lower ''rapat.wav'')) \<in> set allowed_extensions \<and>
   (\<exists>diag.
      transcribe_audio_from_upload example_post ''x'' ''rapat.wav'' =
        ((None, Some diag), [Gladia_post ''rapat.wav'' (guess_mime_type ''rapat.wav'')]) \<and>
      upload_and_process_meeting example_post example_sdk
          (Some \<lparr>filename = ''rapat.wav'', content = ''x''\<rparr>) =
        (HTTPException 500
           (Detail_gladia
              ''Failed to transcribe audio. Please check file format and try again.''
              (Some diag)),
         [Gladia_post ''rapat.wav'' (guess_mime_type ''rapat.wav'')]))"
proof -
  have reply: "example_post (content \<lparr>filename = ''rapat.wav'', content = ''x''\<rparr>)
      (filename \<lparr>filename = ''rapat.wav'', content = ''x''\<rparr>)
      (guess_mime_type (filename \<lparr>filename = ''rapat.wav'', content = ''x''\<rparr>)) =
     Reply 200 (Some (JObj [(''prediction'', JStr [])])) []"
    by (simp add: example_post_def)
  have empty: "extract_transcript (JObj [(''prediction'', JStr [])]) = Inr (Some [])"
    by (simp add: extract_transcript_def from_prediction_def)
  have ext: "snd (splitext (py_lower ''rapat.wav'')) \<in> set allowed_extensions"
    by code_simp
  show ?thesis
    using empty_transcript_is_failure
            [where post = example_post
               and f = "\<lparr>filename = ''rapat.wav'', content = ''x''\<rparr>"
               and result = "JObj [(''prediction'', JStr [])]" and raw = "[]"
               and sdk = example_sdk, OF reply empty]
          ext empty
    by (auto simp: example_post_def)
qed

section \<open>Properties of the section parser\<close>

lemma open_section_eq:
  "open_section name line st =
     Inr \<lparr>summary_data = flush st, current_section = Some name,
          section_content = header_tail line\<rparr>"
  by (simp add: open_section_def header_tail_def py_index_def py_split1_def Let_def)

lemma parse_line_eq: "parse_line st raw = Inr (step st (py_strip raw))"
  by (simp add: parse_line_def step_def header_of_def open_section_eq content_of_def Let_def)

lemma parse_lines_eq: "parse_lines st ls = Inr (foldl step st (map py_strip ls))"
  by (induction ls arbitrary: st) (simp_all add: parse_line_eq)

lemma foldl_step_closed:
  assumes "\<not> section_open st" and "\<forall>l \<in> set ls. header_of l = None"
  shows "foldl step st ls = st"
  using assms by (induction ls) (simp_all add: step_def)

text \<open>
  Claim C6. The loop of the parser never raises, so the \<open>except\<close> branch is never
  taken; and for every text none of whose lines is a header of any section, the result
  is the two "could not parse" placeholders for \<open>agenda\<close> and \<open>action_items\<close> and the
  whole trimmed text for \<open>summary\<close>.
\<close>

theorem parser_fallback:
  "(\<exists>st. parse_lines initial_state (py_split (CHR 0x0A) (py_strip generated_text)) = Inr st) \<and>
   ((\<forall>l \<in> set (py_split (CHR 0x0A) (py_strip generated_text)).
        \<not> is_agenda_header (py_strip l) \<and> \<not> is_summary_header (py_strip l) \<and>
        \<not> is_action_header (py_strip l)) \<longrightarrow>
    parse_gemini_response generated_text =
      [(''agenda'', ''Tidak dapat mengurai agenda dari transkrip''),
       (''summary'', py_strip generated_text),
       (''action_items'', ''Tidak dapat mengurai action items dari transkrip'')])"
proof -
  let ?ls = "py_split (CHR 0x0A) (py_strip generated_text)"
  have total: "\<exists>st. parse_lines initial_state ?ls = Inr st"
    by (simp add: parse_lines_eq)
  have fallback: "parse_gemini_response generated_text =
      [(''agenda'', ''Tidak dapat mengurai agenda dari transkrip''),
       (''summary'', py_strip generated_text),
       (''action_items'', ''Tidak dapat mengurai action items dari transkrip'')]"
    if none: "\<forall>l \<in> set ?ls.
        \<not> is_agenda_header (py_strip l) \<and> \<not> is_summary_header (py_strip l) \<and>
        \<not> is_action_header (py_strip l)"
  proof -
    from none have "\<forall>l \<in> set (map py_strip ?ls). header_of l = None"
      by (simp add: header_of_def)
    moreover have "\<not> section_open initial_state"
      by (simp add: section_open_def initial_state_def)
    ultimately have "foldl step initial_state (map py_strip ?ls) = initial_state"
      by (rule foldl_step_closed [rotated])
    then show ?thesis
      by (simp add: parse_gemini_response_def parse_lines_eq flush_def initial_state_def)
  qed
  from total fallback show ?thesis by blast
qed

theorem parser_fallback_witness:
  "py_split (CHR 0x0A) (py_strip ''  catatan rapat\<newline>tanpa judul  '') =
     [''catatan rapat'', ''tanpa judul''] \<and>
   header_of (py_strip ''catatan rapat'') = None \<and>
   header_of (py_strip ''tanpa judul'') = None \<and>
   parse_gemini_response ''  catatan rapat\<newline>tanpa judul  '' =
     [(''agenda'', ''Tidak dapat mengurai agenda dari transkrip''),
      (''summary'', ''catatan rapat\<newline>tanpa judul''),
      (''action_items'', ''Tidak dapat mengurai action items dari transkrip'')]"
proof -
  have lines: "py_split (CHR 0x0A) (py_strip ''  catatan rapat\<newline>tanpa judul  '') =
     [''catatan rapat'', ''tanpa judul'']"
    by code_simp
  have one: "header_of (py_strip ''catatan rapat'') = None"
    by code_simp
  have two: "header_of (py_strip ''tanpa judul'') = None"
    by code_simp
  have trimmed: "py_strip ''  catatan rapat\<newline>tanpa judul  '' = ''catatan rapat\<newline>tanpa judul''"
    by code_simp
  from one two have none:
    "\<not> is_agenda_header (py_strip ''catatan rapat'') \<and>
     \<not> is_summary_header (py_strip ''catatan rapat'') \<and>
     \<not> is_action_header (py_strip ''catatan rapat'') \<and>
     \<not> is_agenda_header (py_strip ''tanpa judul'') \<and>
     \<not> is_summary_header (py_strip ''tanpa judul'') \<and>
     \<not> is_action_header (py_strip ''tanpa judul'')"
    by (simp add: header_of_def split: if_splits)
  show ?thesis
    using parser_fallback [of "''  catatan rapat\<newline>tanpa judul  ''"] none
    by (simp add: lines one two trimmed)
qed

text \<open>
  Claim C3, as stated, fails: the line \<open>**dua** tiga\<close> is no header and not empty, a
  section is open and \<open>dua tiga\<close> remains after the stars are removed, yet the line is
  dropped.
\<close>

theorem starred_line_counterexample:
  "\<not> is_agenda_header (py_strip ''**dua** tiga'') \<and>
   \<not> is_summary_header (py_strip ''**dua** tiga'') \<and>
   \<not> is_action_header (py_strip ''**dua** tiga'') \<and>
   py_strip ''**dua** tiga'' \<noteq> [] \<and>
   section_open example_state \<and>
   py_strip (py_replace_del (CHR ''*'') (py_strip ''**dua** tiga'')) = ''dua tiga'' \<and>
   parse_line example_state ''**dua** tiga'' = Inr example_state \<and>
   parse_line example_state ''**dua** tiga'' \<noteq>
     Inr (example_state\<lparr>section_content := section_content example_state @ [''dua tiga'']\<rparr>)"
  by code_simp

text \<open>
  Claim C3, amended. A line that is no header, is not empty after trimming, arrives while
  a section is open and does not begin with \<open>**\<close> has every \<open>*\<close> removed and is trimmed
  again; what remains, if not empty, is appended to the accumulator of the open section.
  Such a line that begins with \<open>**\<close> is dropped.
\<close>

theorem content_line_appended:
  assumes "\<not> is_agenda_header (py_strip raw)"
    and "\<not> is_summary_header (py_strip raw)"
    and "\<not> is_action_header (py_strip raw)"
    and "py_strip raw \<noteq> []"
    and "section_open st"
  shows "(\<not> py_startswith (py_strip raw) ''**'' \<longrightarrow>
            parse_line st raw =
              Inr (if py_strip (py_replace_del (CHR ''*'') (py_strip raw)) \<noteq> []
                   then st\<lparr>section_content := section_content st @
                          [py_strip (py_replace_del (CHR ''*'') (py_strip raw))]\<rparr>
                   else st)) \<and>
         (py_startswith (py_strip raw) ''**'' \<longrightarrow> parse_line st raw = Inr st)"
  using assms by (simp add: parse_line_def Let_def)

theorem content_line_appended_witness:
  "\<not> is_agenda_header (py_strip ''  - *dua*  '') \<and>
   \<not> is_summary_header (py_strip ''  - *dua*  '') \<and>
   \<not> is_action_header (py_strip ''  - *dua*  '') \<and>
   py_strip ''  - *dua*  '' \<noteq> [] \<and>
   section_open example_state \<and>
   \<not> py_startswith (py_strip ''  - *dua*  '') ''**'' \<and>
   parse_line example_state ''  - *dua*  '' =
     Inr (example_state\<lparr>section_content := [''- satu'', ''- dua'']\<rparr>)"
proof -
  have a: "\<not> is_agenda_header (py_strip ''  - *dua*  '')" by code_simp
  have b: "\<not> is_summary_header (py_strip ''  - *dua*  '')" by code_simp
  have c: "\<not> is_action_header (py_strip ''  - *dua*  '')" by code_simp
  have d: "py_strip ''  - *dua*  '' \<noteq> []" by code_simp
  have e: "section_open example_state" by code_simp
  have f: "\<not> py_startswith (py_strip ''  - *dua*  '') ''**''" by code_simp
  have g: "py_strip (py_replace_del (CHR ''*'') (py_strip ''  - *dua*  '')) = ''- dua''"
    by code_simp
  have h: "section_content example_state = [''- satu'']"
    by (simp add: example_state_def)
  show ?thesis
    using content_line_appended [OF a b c d e] f
    by (simp add: a b c d e g h)
qed

lemma solid_py_strip: "py_strip y \<noteq> [] \<Longrightarrow> solid (py_strip y)"
proof -
  assume ne: "py_strip y \<noteq> []"
  let ?z = "dropWhile py_isspace (rev (py_lstrip y))"
  from ne have z: "?z \<noteq> []"
    by (simp add: py_strip_def py_rstrip_def)
  then have "\<not> py_isspace (hd ?z)"
    by (rule hd_dropWhile)
  moreover from z have "hd ?z \<in> set (py_strip y)"
    by (simp add: py_strip_def py_rstrip_def)
  ultimately show ?thesis
    by (auto simp: solid_def list_ex_iff)
qed

lemma py_strip_solid: "solid s \<Longrightarrow> py_strip s \<noteq> []"
proof
  assume s: "solid s" and e: "py_strip s = []"
  from e have all: "\<forall>c \<in> set (dropWhile py_isspace s). py_isspace c"
    by (simp add: py_strip_def py_rstrip_def py_lstrip_def dropWhile_eq_Nil_conv)
  have "dropWhile py_isspace s = []"
  proof (rule ccontr)
    assume n: "dropWhile py_isspace s \<noteq> []"
    then have "\<not> py_isspace (hd (dropWhile py_isspace s))" by (rule hd_dropWhile)
    with n all show False by auto
  qed
  then have "\<forall>c \<in> set s. py_isspace c"
    by (simp add: dropWhile_eq_Nil_conv)
  with s show False by (auto simp: solid_def list_ex_iff)
qed

lemma set_py_join: "x \<in> set xs \<Longrightarrow> set x \<subseteq> set (py_join sep xs)"
  by (induction sep xs rule: py_join.induct) auto

lemma py_join_solid:
  assumes "xs \<noteq> []" and "\<forall>x \<in> set xs. solid x"
  shows "solid (py_join sep xs)"
proof -
  from assms obtain x where x: "x \<in> set xs" "solid x"
    by (cases xs) auto
  with set_py_join [of x xs sep] show ?thesis
    by (auto simp: solid_def list_ex_iff)
qed

lemma header_tail_solid: "x \<in> set (header_tail l) \<Longrightarrow> solid x"
  by (auto simp: header_tail_def solid_py_strip split: if_splits)

lemma content_of_solid: "x \<in> set (content_of l) \<Longrightarrow> solid x"
  by (auto simp: content_of_def solid_py_strip split: if_splits)

lemma header_of_key: "header_of l = Some k \<Longrightarrow> k \<noteq> []"
  by (auto simp: header_of_def split: if_splits)

lemma foldl_step_body:
  assumes "section_open st" and "\<forall>l \<in> set ls. header_of l = None"
  shows "foldl step st ls = st\<lparr>section_content := section_content st @ concat (map content_of ls)\<rparr>"
  using assms
proof (induction ls arbitrary: st)
  case Nil
  then show ?case by simp
next
  case (Cons l ls)
  let ?st = "st\<lparr>section_content := section_content st @ content_of l\<rparr>"
  from Cons.prems have one: "step st l = ?st"
    by (simp add: step_def)
  have "section_open ?st"
    using Cons.prems(1) by (simp add: section_open_def)
  with Cons.IH [of ?st] Cons.prems(2) one show ?case
    by simp
qed

lemma flush_other:
  "current_section st \<noteq> Some k \<Longrightarrow> map_of (flush st) k = map_of (summary_data st) k"
  by (auto simp: flush_def update_conv' split: option.splits)

lemma step_holds:
  assumes "holds k v st" and "header_of l \<noteq> Some k"
  shows "holds k v (step st l)"
  using assms by (auto simp: holds_def step_def flush_other split: option.splits)

lemma foldl_step_holds:
  assumes "holds k v st" and "\<forall>l \<in> set ls. header_of l \<noteq> Some k"
  shows "holds k v (foldl step st ls)"
  using assms by (induction ls arbitrary: st) (simp_all add: step_holds)

lemma finish_value:
  assumes "map_of (flush st) k = Some v" and "v \<noteq> []"
    and "parse_lines initial_state (py_split (CHR 0x0A) (py_strip generated_text)) = Inr st"
  shows "map_of (parse_gemini_response generated_text) k = Some v"
proof -
  from assms(1) have "(k, v) \<in> set (flush st)"
    by (rule map_of_SomeD)
  with assms(2) have "list_ex (\<lambda>(k, v). v \<noteq> []) (flush st)"
    by (auto simp: list_ex_iff)
  with assms(1,3) show ?thesis
    by (simp add: parse_gemini_response_def)
qed

text \<open>
  Claim C5, as stated, fails: the agenda heading occurs twice, followed by the bodies
  \<open>satu\<close> and \<open>**dua**\<close>; the stored agenda is the first body, because the only line of
  the last body begins with \<open>**\<close> and is dropped.
\<close>

theorem repeated_heading_counterexample:
  "py_split (CHR 0x0A) (py_strip ''agenda:\<newline>satu\<newline>agenda:\<newline>**dua**'') =
     [''agenda:'', ''satu'', ''agenda:'', ''**dua**''] \<and>
   map_of (parse_gemini_response ''agenda:\<newline>satu\<newline>agenda:\<newline>**dua**'') ''agenda'' =
     Some ''satu''"
  by code_simp

text \<open>
  Claim C5, amended. Let \<open>h\<close> be the last header line of section \<open>k\<close> in the text, and
  let the parser collect at least one content line for it (from the text after its colon
  and from the lines up to the next header). Then the stored value of \<open>k\<close> is those
  content lines joined by newlines, whatever came before \<open>h\<close>: an earlier body of the same
  section is overwritten, not appended to.
\<close>

theorem last_heading_wins:
  assumes split: "py_split (CHR 0x0A) (py_strip generated_text) = pre @ h # rest"
    and header: "header_of (py_strip h) = Some k"
    and last: "\<forall>l \<in> set rest. header_of (py_strip l) \<noteq> Some k"
    and nonempty: "section_body h rest \<noteq> []"
  shows "map_of (parse_gemini_response generated_text) k =
           Some (py_strip (py_join [CHR 0x0A] (section_body h rest)))"
proof -
  let ?P = "\<lambda>l. header_of (py_strip l) = None"
  let ?body = "takeWhile ?P rest" and ?post = "dropWhile ?P rest"
  let ?v = "py_strip (py_join [CHR 0x0A] (section_body h rest))"
  define st1 where "st1 = foldl step initial_state (map py_strip pre)"
  define st3 where "st3 = \<lparr>summary_data = flush st1, current_section = Some k,
                            section_content = section_body h rest\<rparr>"
  define fin where "fin = foldl step st3 (map py_strip ?post)"
  have k: "k \<noteq> []"
    using header by (rule header_of_key)
  have st2: "step st1 (py_strip h) =
      \<lparr>summary_data = flush st1, current_section = Some k,
       section_content = header_tail (py_strip h)\<rparr>"
    using header by (simp add: step_def)
  have body: "foldl step (step st1 (py_strip h)) (map py_strip ?body) = st3"
  proof -
    have "\<forall>l \<in> set (map py_strip ?body). header_of l = None"
      by (auto dest: set_takeWhileD)
    moreover have "section_open (step st1 (py_strip h))"
      using k by (simp add: st2 section_open_def)
    ultimately show ?thesis
      by (simp add: foldl_step_body st2 st3_def section_body_def comp_def)
  qed
  have "map py_strip rest = map py_strip ?body @ map py_strip ?post"
    by (metis map_append takeWhile_dropWhile_id)
  then have "map py_strip (pre @ h # rest) =
          map py_strip pre @ py_strip h # map py_strip ?body @ map py_strip ?post"
    by simp
  then have "foldl step initial_state (map py_strip (pre @ h # rest)) =
          foldl step (foldl step (step st1 (py_strip h)) (map py_strip ?body))
            (map py_strip ?post)"
    by (simp only: foldl_append foldl_Cons st1_def)
  then have run: "parse_lines initial_state (py_split (CHR 0x0A) (py_strip generated_text)) =
                    Inr fin"
    by (simp only: parse_lines_eq split fin_def body)
  have v: "?v \<noteq> []"
  proof -
    have "\<forall>x \<in> set (section_body h rest). solid x"
      by (auto simp: section_body_def header_tail_solid content_of_solid)
    with nonempty show ?thesis
      by (intro py_strip_solid py_join_solid)
  qed
  have st3_value: "map_of (flush st3) k = Some ?v"
    using k nonempty by (simp add: flush_def st3_def update_conv')
  have "map_of (flush fin) k = Some ?v"
  proof (cases ?post)
    case Nil
    show ?thesis
      by (simp only: fin_def Nil list.map foldl_Nil st3_value)
  next
    case (Cons p ps)
    have "?post \<noteq> []"
      unfolding Cons by simp
    then have "\<not> ?P (hd ?post)"
      by (rule hd_dropWhile)
    then have "header_of (py_strip p) \<noteq> None"
      unfolding Cons by simp
    then obtain name where name: "header_of (py_strip p) = Some name"
      by blast
    have "set ?post \<subseteq> set rest"
      by (auto dest: set_dropWhileD)
    then have p: "p \<in> set rest" and ps: "set ps \<subseteq> set rest"
      unfolding Cons by simp_all
    from p last name have other: "name \<noteq> k"
      by blast
    from ps last have later: "\<forall>l \<in> set (map py_strip ps). header_of l \<noteq> Some k"
      by auto
    have "holds k ?v (step st3 (py_strip p))"
      using name other st3_value by (simp add: step_def holds_def)
    then have "holds k ?v (foldl step (step st3 (py_strip p)) (map py_strip ps))"
      using later by (rule foldl_step_holds)
    then have "holds k ?v fin"
      by (simp only: fin_def Cons list.map foldl_Cons)
    then show ?thesis
      by (simp add: holds_def flush_other)
  qed
  then show ?thesis
    using v run by (rule finish_value)
qed

theorem last_heading_wins_witness:
  "py_split (CHR 0x0A) (py_strip ''agenda:\<newline>satu\<newline>ringkasan: baik\<newline>agenda:\<newline>dua'') =
     [''agenda:'', ''satu'', ''ringkasan: baik''] @ ''agenda:'' # [''dua''] \<and>
   header_of (py_strip ''agenda:'') = Some ''agenda'' \<and>
   header_of (py_strip ''dua'') \<noteq> Some ''agenda'' \<and>
   section_body ''agenda:'' [''dua''] = [''dua''] \<and>
   map_of (parse_gemini_response ''agenda:\<newline>satu\<newline>ringkasan: baik\<newline>agenda:\<newline>dua'')
     ''agenda'' = Some ''dua''"
proof -
  have lines: "py_split (CHR 0x0A)
       (py_strip ''agenda:\<newline>satu\<newline>ringkasan: baik\<newline>agenda:\<newline>dua'') =
     [''agenda:'', ''satu'', ''ringkasan: baik''] @ ''agenda:'' # [''dua'']"
    by code_simp
  have header: "header_of (py_strip ''agenda:'') = Some ''agenda''"
    by code_simp
  have rest: "header_of (py_strip ''dua'') = None"
    by code_simp
  then have last: "\<forall>l \<in> set [''dua'']. header_of (py_strip l) \<noteq> Some ''agenda''"
    by simp
  have body: "section_body ''agenda:'' [''dua''] = [''dua'']"
    by code_simp
  have v: "py_strip ''dua'' = ''dua''"
    by code_simp
  show ?thesis
    using last_heading_wins [OF lines header last] rest
    by (simp add: lines header body v)
qed

section \<open>Properties of the presenter\<close>

lemma flush_keys: "k \<in> fst ` set (summary_data st) \<Longrightarrow> k \<in> fst ` set (flush st)"
  by (auto simp: flush_def dom_update split: option.splits)

lemma step_keys:
  "k \<in> fst ` set (summary_data st) \<Longrightarrow> k \<in> fst ` set (summary_data (step st l))"
  by (auto simp: step_def flush_keys split: option.splits)

lemma foldl_step_keys:
  "k \<in> fst ` set (summary_data st) \<Longrightarrow> k \<in> fst ` set (summary_data (foldl step st ls))"
  by (induction ls arbitrary: st) (simp_all add: step_keys)

lemma parse_keys:
  assumes "k \<in> fst ` set (summary_data initial_state)"
  shows "k \<in> fst ` set (parse_gemini_response t)"
proof -
  let ?fin = "foldl step initial_state (map py_strip (py_split (CHR 0x0A) (py_strip t)))"
  from assms have "k \<in> fst ` set (flush ?fin)"
    by (intro flush_keys foldl_step_keys)
  then show ?thesis
    by (simp add: parse_gemini_response_def parse_lines_eq Let_def dom_update)
qed

lemma parse_field:
  assumes "k \<in> fst ` set (summary_data initial_state)"
  shows "map_of (parse_gemini_response t) k = Some (dict_get (parse_gemini_response t) k dflt)"
proof -
  from assms have "k \<in> fst ` set (parse_gemini_response t)"
    by (rule parse_keys)
  then have "map_of (parse_gemini_response t) k \<noteq> None"
    by (simp add: map_of_eq_None_iff)
  then show ?thesis
    by (auto simp: dict_get_def)
qed

text \<open>
  Claim C1. The spec has the presenter put the "not available" placeholder for a field
  that is the empty string. The code reads each field with \<open>.get(key, default)\<close>, and the
  parser, the only producer of the mapping, always returns the three keys: for every
  response text each output field is exactly the value the parser stored, so the
  defaults are never used and an empty field stays empty. For the response text
  \<open>ringkasan: Semua baik\<close> the agenda reaches the client as the empty string, in the
  \<open>agenda\<close> field and in the composite block.
\<close>

theorem presenter_never_substitutes:
  "map_of (parse_gemini_response t) ''agenda'' =
     Some (fs_agenda (format_summary_for_frontend (parse_gemini_response t))) \<and>
   map_of (parse_gemini_response t) ''summary'' =
     Some (fs_key_points (format_summary_for_frontend (parse_gemini_response t))) \<and>
   map_of (parse_gemini_response t) ''action_items'' =
     Some (fs_action_items (format_summary_for_frontend (parse_gemini_response t))) \<and>
   parse_gemini_response ''ringkasan: Semua baik'' =
     [(''agenda'', []), (''summary'', ''Semua baik''), (''action_items'', [])] \<and>
   fs_agenda (format_summary_for_frontend (parse_gemini_response ''ringkasan: Semua baik'')) = [] \<and>
   fs_summary (format_summary_for_frontend (parse_gemini_response ''ringkasan: Semua baik'')) =
     ''Agenda:\<newline>\<newline>\<newline>Ringkasan:\<newline>Semua baik\<newline>\<newline>Action Items:\<newline>''"
proof -
  have keys: "''agenda'' \<in> fst ` set (summary_data initial_state)"
    "''summary'' \<in> fst ` set (summary_data initial_state)"
    "''action_items'' \<in> fst ` set (summary_data initial_state)"
    by (simp_all add: initial_state_def)
  have parsed: "parse_gemini_response ''ringkasan: Semua baik'' =
     [(''agenda'', []), (''summary'', ''Semua baik''), (''action_items'', [])]"
    by code_simp
  show ?thesis
    using keys [THEN parse_field]
    by (simp add: parsed) (simp add: format_summary_for_frontend_def dict_get_def)
qed

end
